theory Spec2Isabelle
  imports Main
begin

section \<open>Python values and library functions used by owi2plex.py\<close>

text \<open>
  A Python text is modelled as a \<^typ>\<open>string\<close>: a list of code points below 256.
  Every exception the source can raise is a value of \<open>error\<close>; a function that can
  raise returns \<open>error + 'a\<close>, with \<open>Inl\<close> for the exception.
\<close>

datatype error = KeyError | ValueError | TypeError

definition err_bind :: "error + 'a \<Rightarrow> ('a \<Rightarrow> error + 'b) \<Rightarrow> error + 'b" where
  "err_bind x f = (case x of Inl e \<Rightarrow> Inl e | Inr v \<Rightarrow> f v)"

subsection \<open>Integers and their decimal text\<close>

definition digit_char :: "nat \<Rightarrow> char" where
  "digit_char d = char_of (48 + d)"

fun nat_digits :: "nat \<Rightarrow> string" where
  "nat_digits n =
     (if n < 10 then [digit_char n] else nat_digits (n div 10) @ [digit_char (n mod 10)])"

declare nat_digits.simps [simp del]

text \<open>\<open>str(i)\<close> and \<open>'{}'.format(i)\<close> for an integer \<open>i\<close>.\<close>

definition py_str :: "int \<Rightarrow> string" where
  "py_str i = (if i < 0 then CHR ''-'' # nat_digits (nat (- i)) else nat_digits (nat i))"

definition is_digit :: "char \<Rightarrow> bool" where
  "is_digit c = (48 \<le> (of_char c :: nat) \<and> (of_char c :: nat) \<le> 57)"

definition digit_val :: "char \<Rightarrow> nat" where
  "digit_val c = of_char c - 48"

definition digits_val :: "string \<Rightarrow> nat" where
  "digits_val s = foldl (\<lambda>a c. 10 * a + digit_val c) 0 s"

text \<open>
  \<open>int(s)\<close> on the texts that reach it in this program, the captures of \<open>\d+\<close>: a
  non-empty run of decimal digits is read in base ten, any other text raises ValueError.
\<close>

definition py_int :: "string \<Rightarrow> error + int" where
  "py_int s = (if s \<noteq> [] \<and> list_all is_digit s then Inr (int (digits_val s)) else Inl ValueError)"

subsection \<open>Text operations\<close>

text \<open>\<open>sub in s\<close> for two texts: \<open>sub\<close> occurs somewhere in \<open>s\<close>.\<close>

fun py_in :: "string \<Rightarrow> string \<Rightarrow> bool" where
  "py_in sub [] = (sub = [])"
| "py_in sub (c # cs) = (if take (length sub) (c # cs) = sub then True else py_in sub cs)"

text \<open>
  \<open>s.replace(old, new)\<close>: every occurrence of \<open>old\<close>, left to right and without
  overlap, becomes \<open>new\<close>. The fuel is the length of the text left; the source only
  replaces a non-empty \<open>old\<close>.
\<close>

fun replace_from :: "nat \<Rightarrow> string \<Rightarrow> string \<Rightarrow> string \<Rightarrow> string" where
  "replace_from 0 old new s = s"
| "replace_from (Suc n) old new [] = []"
| "replace_from (Suc n) old new (c # cs) =
     (if old \<noteq> [] \<and> take (length old) (c # cs) = old
      then new @ replace_from (Suc n - length old) old new (drop (length old) (c # cs))
      else c # replace_from n old new cs)"

definition py_replace :: "string \<Rightarrow> string \<Rightarrow> string \<Rightarrow> string" where
  "py_replace s old new = replace_from (length s) old new s"

text \<open>\<open>s.split(sep)\<close> for a one-character separator.\<close>

fun py_split :: "char \<Rightarrow> string \<Rightarrow> string list" where
  "py_split sep [] = [[]]"
| "py_split sep (c # cs) =
     (if c = sep then [] # py_split sep cs
      else (case py_split sep cs of [] \<Rightarrow> [[c]] | w # ws \<Rightarrow> (c # w) # ws))"

text \<open>\<open>s.split(sep, maxsplit)\<close>: at most \<open>maxsplit\<close> cuts, the rest stays whole.\<close>

fun py_split_max :: "char \<Rightarrow> nat \<Rightarrow> string \<Rightarrow> string list" where
  "py_split_max sep 0 s = [s]"
| "py_split_max sep (Suc n) [] = [[]]"
| "py_split_max sep (Suc n) (c # cs) =
     (if c = sep then [] # py_split_max sep n cs
      else (case py_split_max sep (Suc n) cs of [] \<Rightarrow> [[c]] | w # ws \<Rightarrow> (c # w) # ws))"

section \<open>Regular expressions: the backtracking matcher of the \<open>re\<close> module\<close>

text \<open>
  The character classes of a \<open>str\<close> pattern are Unicode-aware; they are written out
  for the code points below 256.
\<close>

definition is_space :: "char \<Rightarrow> bool" where
  "is_space c = (let n = (of_char c :: nat) in
     (9 \<le> n \<and> n \<le> 13) \<or> (28 \<le> n \<and> n \<le> 32) \<or> n = 133 \<or> n = 160)"

definition is_word :: "char \<Rightarrow> bool" where
  "is_word c = (let n = (of_char c :: nat) in
     (48 \<le> n \<and> n \<le> 57) \<or> (65 \<le> n \<and> n \<le> 90) \<or> n = 95 \<or> (97 \<le> n \<and> n \<le> 122) \<or>
     n = 170 \<or> n = 178 \<or> n = 179 \<or> n = 181 \<or> n = 185 \<or> n = 186 \<or>
     (188 \<le> n \<and> n \<le> 190) \<or> (192 \<le> n \<and> n \<le> 214) \<or> (216 \<le> n \<and> n \<le> 246) \<or> 248 \<le> n)"

datatype item =
    Lit char    \<comment> \<open>a literal character\<close>
  | CDigit      \<comment> \<open>\<open>\d\<close>\<close>
  | CWord       \<comment> \<open>\<open>\w\<close>\<close>
  | CSpace      \<comment> \<open>\<open>\s\<close>\<close>
  | CAny        \<comment> \<open>\<open>.\<close>: any character but a newline\<close>

fun item_match :: "item \<Rightarrow> char \<Rightarrow> bool" where
  "item_match (Lit a) c = (c = a)"
| "item_match CDigit c = is_digit c"
| "item_match CWord c = is_word c"
| "item_match CSpace c = is_space c"
| "item_match CAny c = (c \<noteq> CHR 0x0A)"

datatype regex =
    Eps                   \<comment> \<open>the empty pattern\<close>
  | Sym item              \<comment> \<open>one character\<close>
  | Bracket "item list"   \<comment> \<open>\<open>[...]\<close>\<close>
  | Bol                   \<comment> \<open>\<open>^\<close>\<close>
  | Cat regex regex       \<comment> \<open>sequence\<close>
  | Or regex regex        \<comment> \<open>\<open>a|b\<close>\<close>
  | Opt regex             \<comment> \<open>\<open>a?\<close>\<close>
  | Star regex            \<comment> \<open>\<open>a*\<close>\<close>
  | Many regex            \<comment> \<open>\<open>a+\<close>\<close>
  | Group string regex    \<comment> \<open>\<open>(?P<name>a)\<close>; a numbered group \<open>(a)\<close> is named by its number\<close>

definition cat :: "regex list \<Rightarrow> regex" where
  "cat rs = foldr Cat rs Eps"

text \<open>
  A matcher state is the position in the text, the text left from there, and the groups
  captured so far (the latest capture of a name first).
\<close>

type_synonym mstate = "nat \<times> string \<times> (string \<times> string) list"

text \<open>
  Greedy repetition of a step: one more iteration first, then stopping here. An
  iteration that consumes nothing is not repeated. The fuel is the length of the text
  left, which every counted iteration shortens.
\<close>

fun star :: "(mstate \<Rightarrow> mstate list) \<Rightarrow> nat \<Rightarrow> mstate \<Rightarrow> mstate list" where
  "star f 0 st = [st]"
| "star f (Suc n) st =
     concat (map (\<lambda>st'. if length (fst (snd st')) < length (fst (snd st)) then star f n st' else [])
                 (f st)) @ [st]"

text \<open>
  \<open>ms r st\<close> lists every way \<open>r\<close> matches from the state \<open>st\<close>, in the order in
  which the backtracking matcher tries them; the first one that lets the rest of the
  pattern match is the one \<open>re\<close> reports.
\<close>

primrec ms :: "regex \<Rightarrow> mstate \<Rightarrow> mstate list" where
  "ms Eps st = [st]"
| "ms (Sym i) st =
     (case st of (p, s, g) \<Rightarrow>
        (case s of [] \<Rightarrow> [] | c # cs \<Rightarrow> if item_match i c then [(Suc p, cs, g)] else []))"
| "ms (Bracket is) st =
     (case st of (p, s, g) \<Rightarrow>
        (case s of [] \<Rightarrow> [] | c # cs \<Rightarrow> if list_ex (\<lambda>i. item_match i c) is then [(Suc p, cs, g)] else []))"
| "ms Bol st = (case st of (p, s, g) \<Rightarrow> if p = 0 then [st] else [])"
| "ms (Cat a b) st = concat (map (ms b) (ms a st))"
| "ms (Or a b) st = ms a st @ ms b st"
| "ms (Opt a) st = ms a st @ [st]"
| "ms (Star a) st = star (ms a) (length (fst (snd st))) st"
| "ms (Many a) st = concat (map (\<lambda>st'. star (ms a) (length (fst (snd st'))) st') (ms a st))"
| "ms (Group n a) st =
     map (\<lambda>st'. (fst st', fst (snd st'),
                 (n, take (fst st' - fst st) (fst (snd st))) # snd (snd st')))
         (ms a st)"

text \<open>The names of the groups of a pattern, in the order in which they are written.\<close>

primrec group_names :: "regex \<Rightarrow> string list" where
  "group_names Eps = []"
| "group_names (Sym i) = []"
| "group_names (Bracket is) = []"
| "group_names Bol = []"
| "group_names (Cat a b) = group_names a @ group_names b"
| "group_names (Or a b) = group_names a @ group_names b"
| "group_names (Opt a) = group_names a"
| "group_names (Star a) = group_names a"
| "group_names (Many a) = group_names a"
| "group_names (Group n a) = n # group_names a"

text \<open>A match object: where the match starts and ends, its captures, its pattern's names.\<close>

record py_match =
  m_start :: nat
  m_end :: nat
  m_groups :: "(string \<times> string) list"
  m_names :: "string list"

text \<open>\<open>m.group(name)\<close>: the text captured last under the name, None when it took no part.\<close>

definition group :: "py_match \<Rightarrow> string \<Rightarrow> string option" where
  "group m n = map_of (m_groups m) n"

text \<open>\<open>m.groupdict().values()\<close>: one entry per named group, in pattern order.\<close>

definition groupdict_values :: "py_match \<Rightarrow> string option list" where
  "groupdict_values m = map (group m) (m_names m)"

definition match_at :: "regex \<Rightarrow> string \<Rightarrow> nat \<Rightarrow> py_match option" where
  "match_at r s i =
     (case ms r (i, drop i s, []) of
        [] \<Rightarrow> None
      | st # _ \<Rightarrow> Some \<lparr>m_start = i, m_end = fst st, m_groups = snd (snd st),
                         m_names = group_names r\<rparr>)"

fun first_match :: "regex \<Rightarrow> string \<Rightarrow> nat list \<Rightarrow> py_match option" where
  "first_match r s [] = None"
| "first_match r s (i # is) =
     (case match_at r s i of Some m \<Rightarrow> Some m | None \<Rightarrow> first_match r s is)"

text \<open>\<open>re.search(r, s)\<close>: the match at the leftmost position that has one.\<close>

definition re_search_from :: "regex \<Rightarrow> string \<Rightarrow> nat \<Rightarrow> py_match option" where
  "re_search_from r s i = first_match r s [i..<Suc (length s)]"

definition re_search :: "regex \<Rightarrow> string \<Rightarrow> py_match option" where
  "re_search r s = re_search_from r s 0"

text \<open>
  \<open>re.sub(r, repl, s)\<close> for a literal replacement: the matches are found left to
  right, each search starting where the last match ended (one character further after
  an empty match). At most \<open>length s + 1\<close> matches exist, which is the fuel.
\<close>

fun sub_from :: "nat \<Rightarrow> regex \<Rightarrow> string \<Rightarrow> string \<Rightarrow> nat \<Rightarrow> string" where
  "sub_from 0 r repl s i = drop i s"
| "sub_from (Suc n) r repl s i =
     (case re_search_from r s i of
        None \<Rightarrow> drop i s
      | Some m \<Rightarrow>
          take (m_start m - i) (drop i s) @ repl @
          (if m_end m = m_start m
           then (if m_start m < length s
                 then s ! m_start m # sub_from n r repl s (Suc (m_start m))
                 else [])
           else sub_from n r repl s (m_end m)))"

definition re_sub :: "regex \<Rightarrow> string \<Rightarrow> string \<Rightarrow> string" where
  "re_sub r repl s = sub_from (Suc (length s)) r repl s 0"

section \<open>parseSEP\<close>

text \<open>\<open>(?:S(?P<S>\d+)(?:\/|\s)*)?(?:Ep|E)\s*(?P<E>\d+)(?:\/(?P<P>\d+))?\<close>\<close>

definition c4_style :: regex where
  "c4_style = cat
     [Opt (cat [Sym (Lit CHR ''S''), Group ''S'' (Many (Sym CDigit)),
                Star (Or (Sym (Lit CHR ''/'')) (Sym CSpace))]),
      Or (cat [Sym (Lit CHR ''E''), Sym (Lit CHR ''p'')]) (Sym (Lit CHR ''E'')),
      Star (Sym CSpace),
      Group ''E'' (Many (Sym CDigit)),
      Opt (cat [Sym (Lit CHR ''/''), Group ''P'' (Many (Sym CDigit))])]"

text \<open>\<open>^(?P<E>\d+)\/(?P<P>\d+)\.\<close>\<close>

definition bbc_style :: regex where
  "bbc_style = cat
     [Bol, Group ''E'' (Many (Sym CDigit)), Sym (Lit CHR ''/''),
      Group ''P'' (Many (Sym CDigit)), Sym (Lit CHR ''.'')]"

text \<open>
  \<open>'{}'.format(int(match.group(n)) - 1 if match.group(n) else '')\<close>: a group that
  took no part in the match, or captured the empty text, gives the empty field.
\<close>

definition sep_field :: "py_match \<Rightarrow> string \<Rightarrow> error + string" where
  "sep_field m n =
     (case group m n of
        None \<Rightarrow> Inr []
      | Some v \<Rightarrow> if v = [] then Inr [] else err_bind (py_int v) (\<lambda>k. Inr (py_str (k - 1))))"

definition parseSEP :: "string \<Rightarrow> error + (bool \<times> string)" where
  "parseSEP text =
     (let c4 = re_search c4_style text;
          bbc = re_search bbc_style text;
          found = (case c4 of Some m \<Rightarrow> (True, Some m)
                   | None \<Rightarrow> (case bbc of Some m \<Rightarrow> (True, Some m) | None \<Rightarrow> (False, None)));
          is_a_match = fst found
      in case snd found of
           None \<Rightarrow> Inr (is_a_match, [] @ ''.'' @ [] @ ''.'' @ [])
         | Some m \<Rightarrow>
             err_bind (if ''S'' \<in> set (m_names m) then sep_field m ''S'' else Inr []) (\<lambda>S.
             err_bind (if ''E'' \<in> set (m_names m) then sep_field m ''E'' else Inr []) (\<lambda>E.
             err_bind (if ''P'' \<in> set (m_names m) then sep_field m ''P'' else Inr []) (\<lambda>P.
               Inr (is_a_match, S @ ''.'' @ E @ ''.'' @ P)))))"

section \<open>The XML tree\<close>

text \<open>
  An \<open>lxml\<close> element: tag, attributes in the order they were set, text (None when
  never set) and children in document order.
\<close>

datatype element =
  Element (el_tag: string) (el_attrib: "(string \<times> string) list")
          (el_text: "string option") (el_children: "element list")

text \<open>\<open>etree.SubElement(parent, ...)\<close>: the new element becomes the last child.\<close>

definition SubElement :: "element \<Rightarrow> element \<Rightarrow> element" where
  "SubElement parent child =
     Element (el_tag parent) (el_attrib parent) (el_text parent) (el_children parent @ [child])"

text \<open>\<open>e.find(tag)\<close>: the first child with the tag, None when there is none.\<close>

definition find_child :: "element \<Rightarrow> string \<Rightarrow> element option" where
  "find_child e t = List.find (\<lambda>c. el_tag c = t) (el_children e)"

section \<open>unescape\<close>

definition valid_xml_char_ordinal :: "char \<Rightarrow> bool" where
  "valid_xml_char_ordinal c = (let codepoint = (of_char c :: nat) in
     (0x20 \<le> codepoint \<and> codepoint \<le> 0xD7FF) \<or>
     codepoint \<in> set [0x9, 0xA, 0xD] \<or>
     (0xE000 \<le> codepoint \<and> codepoint \<le> 0xFFFD) \<or>
     (0x10000 \<le> codepoint \<and> codepoint \<le> 0x10FFFF))"

text \<open>
  The standard library's \<open>html.unescape\<close>: a text without \<open>&\<close> is returned as it
  is, otherwise its character references are decoded. The decoder (the library's
  entity table) is the parameter \<open>charref\<close>.
\<close>

definition html_unescape :: "(string \<Rightarrow> string) \<Rightarrow> string \<Rightarrow> string" where
  "html_unescape charref s = (if CHR ''&'' \<in> set s then charref s else s)"

text \<open>
  \<open>unescape\<close>: \<open>html\<close> is None where \<open>import html\<close> fails (the bare \<open>except\<close>
  then returns the text as it is), and the library's decoder otherwise.
\<close>

definition unescape :: "(string \<Rightarrow> string) option \<Rightarrow> string \<Rightarrow> string" where
  "unescape html s =
     (case html of
        None \<Rightarrow> s
      | Some charref \<Rightarrow> filter valid_xml_char_ordinal (html_unescape charref s))"

section \<open>The records received from OpenWebif\<close>

record event =
  begin_timestamp :: int
  duration :: int
  title :: string
  shortdesc :: string
  longdesc :: string
  picon :: string



section \<open>getOffset\<close>

text \<open>
  \<open>round(a / b)\<close> for whole numbers \<open>a\<close> and \<open>b > 0\<close>: the nearest integer, a tie
  going to the even one. (The offset is a whole number of seconds far below \<open>2^53\<close>,
  so the float quotient is a tie exactly when the exact quotient is.)
\<close>

definition py_round_div :: "int \<Rightarrow> int \<Rightarrow> int" where
  "py_round_div a b =
     (let q = a div b; r = a mod b
      in if 2 * r < b then q else if b < 2 * r then q + 1 else if even q then q else q + 1)"

text \<open>\<open>"{:+05}".format(n)\<close>: the sign, then the digits padded with zeros to width 5.\<close>

definition format_plus05 :: "int \<Rightarrow> string" where
  "format_plus05 n =
     (let d = nat_digits (nat \<bar>n\<bar>)
      in (if n < 0 then CHR ''-'' else CHR ''+'') # replicate (4 - length d) CHR ''0'' @ d)"

text \<open>
  \<open>getOffset\<close>, from the difference \<open>offset\<close> in seconds between the local and the UTC
  reading of the clock. \<open>round(minutes / 900) * 900\<close> is a multiple of 60, so that the
  division by 60 is exact and \<open>int\<close> changes nothing.
\<close>

definition getOffset :: "int \<Rightarrow> string" where
  "getOffset offset =
     (let hours = py_round_div offset 3600;
          minutes = offset - hours * 3600
      in format_plus05 (hours * 100 + (py_round_div minutes 900 * 900) div 60))"

section \<open>addChannels2XML\<close>




section \<open>addCategories2Programme\<close>

text \<open>\<open>^\[(?P<C1>[\w\s]+)[\.\s]*(?P<C2>[\w\s]+)*\]\<close>\<close>

definition categories_re :: regex where
  "categories_re = cat
     [Bol, Sym (Lit CHR ''[''),
      Group ''C1'' (Many (Bracket [CWord, CSpace])),
      Star (Bracket [Lit CHR ''.'', CSpace]),
      Star (Group ''C2'' (Many (Bracket [CWord, CSpace]))),
      Sym (Lit CHR '']'')]"

definition category_element :: "string \<Rightarrow> element" where
  "category_element c = Element ''category'' [(''lang'', ''en'')] (Some c) []"

text \<open>The loop over \<open>categories.groupdict().values()\<close>; \<open>if category\<close> skips None and ''.\<close>

fun add_category_values :: "element \<Rightarrow> string option list \<Rightarrow> element" where
  "add_category_values programme [] = programme"
| "add_category_values programme (category # rest) =
     (case category of
        None \<Rightarrow> add_category_values programme rest
      | Some c \<Rightarrow>
          if c = [] then add_category_values programme rest
          else add_category_values (SubElement programme (category_element c)) rest)"

definition addCategories2Programme :: "element \<Rightarrow> event \<Rightarrow> element" where
  "addCategories2Programme programme ev =
     (case re_search categories_re (shortdesc ev) of
        None \<Rightarrow> programme
      | Some categories \<Rightarrow> add_category_values programme (groupdict_values categories))"

section \<open>addSeriesInfo2Programme\<close>

text \<open>
  \<open>(\d{2})[\/|\.|\-](\d{2})[\/|\.|\-](\d{4})\<close>: the counted repetitions are written
  out; the bracket holds the characters \<open>/\<close>, \<open>|\<close>, \<open>.\<close> and \<open>-\<close>.
\<close>

definition air_date_sep :: regex where
  "air_date_sep = Bracket [Lit CHR ''/'', Lit CHR ''|'', Lit CHR ''.'', Lit CHR ''|'', Lit CHR ''-'']"

definition air_date_re :: regex where
  "air_date_re = cat
     [Group ''1'' (cat [Sym CDigit, Sym CDigit]), air_date_sep,
      Group ''2'' (cat [Sym CDigit, Sym CDigit]), air_date_sep,
      Group ''3'' (cat [Sym CDigit, Sym CDigit, Sym CDigit, Sym CDigit])]"

text \<open>\<open>'{}'.format(m.group(n))\<close>: a group that took no part is rendered as \<open>None\<close>.\<close>

definition format_group :: "py_match \<Rightarrow> string \<Rightarrow> string" where
  "format_group m n = (case group m n of None \<Rightarrow> ''None'' | Some v \<Rightarrow> v)"

definition episode_num :: "string \<Rightarrow> string \<Rightarrow> element" where
  "episode_num system v = Element ''episode-num'' [(''system'', system)] (Some v) []"

text \<open>
  The guard of the source reads \<open>existing_category.text\<close>; without a category that
  raises AttributeError, which is caught and ignored.
\<close>

definition addSeriesInfo2Programme :: "element \<Rightarrow> event \<Rightarrow> error + element" where
  "addSeriesInfo2Programme programme ev =
     (let original_air_date = re_search air_date_re (shortdesc ev)
      in err_bind (parseSEP (shortdesc ev)) (\<lambda>(match_epnum, epnum).
           let existing_category = find_child programme ''category''
           in if (case existing_category of
                    None \<Rightarrow> False
                  | Some c \<Rightarrow> el_text c = Some ''Movie'' \<or> el_text c = Some ''News'')
              then Inr programme
              else
                (let p1 = (if match_epnum
                           then (let p = SubElement programme (episode_num ''xmltv_ns'' epnum)
                                 in if existing_category = None
                                    then SubElement p (category_element ''Series'')
                                    else p)
                           else programme);
                     p2 = (case original_air_date of
                             None \<Rightarrow> p1
                           | Some m \<Rightarrow>
                               SubElement p1 (episode_num ''original-air-date''
                                 (format_group m ''3'' @ ''-'' @ format_group m ''2'' @ ''-'' @
                                  format_group m ''1'')))
                 in Inr p2)))"

section \<open>addMovieCredits\<close>

text \<open>
  \<open>existing_category.text in ('Movie')\<close>: the parentheses do not make a tuple, so
  this is the test whether the text occurs in \<open>'Movie'\<close>. A category without text makes
  it a TypeError, which the handler for AttributeError does not catch.
\<close>

definition credits_element :: "string list \<Rightarrow> element" where
  "credits_element cast =
     Element ''credits'' [] None
       (Element ''director'' [] (Some (cast ! 1)) [] #
        map (\<lambda>c. Element ''actor'' [] (Some c) []) (py_split CHR 0x0A (butlast (cast ! 2))))"

definition addMovieCredits :: "element \<Rightarrow> event \<Rightarrow> error + element" where
  "addMovieCredits programme ev =
     (case find_child programme ''category'' of
        None \<Rightarrow> Inr programme
      | Some existing_category \<Rightarrow>
          (case el_text existing_category of
             None \<Rightarrow> Inl TypeError
           | Some t \<Rightarrow>
               if py_in t ''Movie'' then
                 (let cast = py_split_max CHR 0x0A 2 (longdesc ev)
                  in if length cast > 2
                     then Inr (SubElement programme (credits_element cast))
                     else Inr programme)
               else Inr programme))"

section \<open>addEvents2XML\<close>

text \<open>
  The clock of the machine is a parameter: \<open>fromtimestamp\<close> gives the local wall-clock
  reading of a timestamp (in seconds), \<open>strftime\<close> its rendering by \<open>%Y%m%d%H%M%S\<close>.
\<close>

record clock =
  fromtimestamp :: "int \<Rightarrow> int"
  strftime :: "int \<Rightarrow> string"

text \<open>\<open>^(\[.+\]\s*)\<close> and \<open>\s*\([SE]\d+.*\)\<close>\<close>

definition subtitle_prefix_re :: regex where
  "subtitle_prefix_re = cat
     [Bol, Group ''1'' (cat [Sym (Lit CHR ''[''), Many (Sym CAny), Sym (Lit CHR '']''),
                             Star (Sym CSpace)])]"

definition subtitle_sep_re :: regex where
  "subtitle_sep_re = cat
     [Star (Sym CSpace), Sym (Lit CHR ''(''), Bracket [Lit CHR ''S'', Lit CHR ''E''],
      Many (Sym CDigit), Star (Sym CAny), Sym (Lit CHR '')'')]"

definition subtitle_of :: "string \<Rightarrow> string" where
  "subtitle_of sd =
     (let subtitle_first_step = re_sub subtitle_prefix_re [] sd
      in re_sub subtitle_sep_re [] subtitle_first_step)"

text \<open>Lines 297 to 304: the programme element, its times and its length.\<close>

definition programme_head :: "clock \<Rightarrow> string \<Rightarrow> string \<Rightarrow> event \<Rightarrow> element" where
  "programme_head clk tzoffset service_program ev =
     (let start_dt = fromtimestamp clk (begin_timestamp ev);
          start_dt_str = strftime clk start_dt @ '' '' @ tzoffset;
          end_dt = start_dt + 60 * duration ev;
          end_dt_str = strftime clk end_dt @ '' '' @ tzoffset
      in Element ''programme''
           [(''channel'', service_program), (''start'', start_dt_str), (''stop'', end_dt_str)]
           None
           [Element ''length'' [(''units'', ''minutes'')] (Some (py_str (duration ev))) []])"

text \<open>Lines 306 to 317: the description and the sub-title.\<close>

definition add_desc :: "(string \<Rightarrow> string) option \<Rightarrow> element \<Rightarrow> event \<Rightarrow> element" where
  "add_desc html programme ev =
     (if longdesc ev = [] then
        SubElement programme
          (Element ''desc'' [(''lang'', ''en'')] (Some (unescape html (shortdesc ev))) [])
      else
        (let p = SubElement programme
                   (Element ''desc'' [(''lang'', ''en'')] (Some (unescape html (longdesc ev))) []);
             subtitle = subtitle_of (shortdesc ev)
         in if length subtitle > 0
            then SubElement p
                   (Element ''sub-title'' [(''lang'', ''en'')] (Some (unescape html subtitle)) [])
            else p))"

text \<open>Lines 319 to 325: the title and the marker of a new programme.\<close>

definition add_title :: "(string \<Rightarrow> string) option \<Rightarrow> element \<Rightarrow> event \<Rightarrow> element" where
  "add_title html programme ev =
     (let t = unescape html (title ev)
      in if py_in ''New: '' t
         then SubElement (SubElement programme (Element ''new'' [] None []))
                (Element ''title'' [(''lang'', ''en'')] (Some (py_replace t ''New: '' [])) [])
         else SubElement programme (Element ''title'' [(''lang'', ''en'')] (Some t) []))"

text \<open>The body of the inner loop: the programme of one event.\<close>

definition event_programme ::
  "(string \<Rightarrow> string) option \<Rightarrow> clock \<Rightarrow> string \<Rightarrow> string \<Rightarrow> event \<Rightarrow> error + element" where
  "event_programme html clk tzoffset service_program ev =
     (let p0 = programme_head clk tzoffset service_program ev;
          p1 = add_desc html p0 ev;
          p2 = add_title html p1 ev;
          p3 = addCategories2Programme p2 ev
      in err_bind (addSeriesInfo2Programme p3 ev) (\<lambda>p4. addMovieCredits p4 ev))"

fun addEvents ::
  "(string \<Rightarrow> string) option \<Rightarrow> clock \<Rightarrow> string \<Rightarrow> string \<Rightarrow> element \<Rightarrow> event list \<Rightarrow>
   error + element" where
  "addEvents html clk tzoffset service_program xmltv [] = Inr xmltv"
| "addEvents html clk tzoffset service_program xmltv (ev # events) =
     err_bind (event_programme html clk tzoffset service_program ev)
       (\<lambda>programme. addEvents html clk tzoffset service_program (SubElement xmltv programme) events)"

fun addEvents2XML ::
  "(string \<Rightarrow> string) option \<Rightarrow> clock \<Rightarrow> element \<Rightarrow> (string \<times> event list) list \<Rightarrow> string \<Rightarrow>
   error + element" where
  "addEvents2XML html clk xmltv [] tzoffset = Inr xmltv"
| "addEvents2XML html clk xmltv (item # epg) tzoffset =
     err_bind (addEvents html clk tzoffset (fst item) xmltv (snd item))
       (\<lambda>xmltv'. addEvents2XML html clk xmltv' epg tzoffset)"

section \<open>The texts a pattern can match\<close>

text \<open>
  The language of a pattern, used to say what a group can capture: every text the
  matcher consumes for a pattern lies in it.
\<close>

inductive_set star_lang :: "string set \<Rightarrow> string set" for A :: "string set" where
  star_nil: "[] \<in> star_lang A"
| star_app: "u \<in> A \<Longrightarrow> v \<in> star_lang A \<Longrightarrow> u @ v \<in> star_lang A"

primrec lang :: "regex \<Rightarrow> string set" where
  "lang Eps = {[]}"
| "lang (Sym i) = {[c] | c. item_match i c}"
| "lang (Bracket is) = {[c] | c. list_ex (\<lambda>i. item_match i c) is}"
| "lang Bol = {[]}"
| "lang (Cat a b) = {u @ v | u v. u \<in> lang a \<and> v \<in> lang b}"
| "lang (Or a b) = lang a \<union> lang b"
| "lang (Opt a) = insert [] (lang a)"
| "lang (Star a) = star_lang (lang a)"
| "lang (Many a) = {u @ v | u v. u \<in> lang a \<and> v \<in> star_lang (lang a)}"
| "lang (Group n a) = lang a"


text \<open>\<open>consumes st u st'\<close>: from \<open>st\<close> the matcher has read \<open>u\<close> and stands at \<open>st'\<close>.\<close>

definition consumes :: "mstate \<Rightarrow> string \<Rightarrow> mstate \<Rightarrow> bool" where
  "consumes st u st' = (fst (snd st) = u @ fst (snd st') \<and> fst st' = fst st + length u)"


section \<open>Notions of the specification\<close>



text \<open>The annotation of the air date: none without a date, else one \<open>episode-num\<close>.\<close>

definition air_date_elements :: "string \<Rightarrow> element list" where
  "air_date_elements sd =
     (case re_search air_date_re sd of
        None \<Rightarrow> []
      | Some m \<Rightarrow> [episode_num ''original-air-date''
                     (format_group m ''3'' @ ''-'' @ format_group m ''2'' @ ''-'' @ format_group m ''1'')])"



definition title_element :: "string \<Rightarrow> element" where
  "title_element t = Element ''title'' [(''lang'', ''en'')] (Some t) []"


section \<open>Sample inputs\<close>

definition sample_event :: "string \<Rightarrow> string \<Rightarrow> string \<Rightarrow> event" where
  "sample_event t sd ld =
     \<lparr>begin_timestamp = 0, duration = 30, title = t, shortdesc = sd, longdesc = ld,
      picon = ''/picon/1.png''\<rparr>"

definition empty_programme :: element where
  "empty_programme = Element ''programme'' [] None []"


section \<open>Lemmas on the library model\<close>

lemma err_bind_Inr [simp]: "err_bind (Inr v) f = f v"
  by (simp add: err_bind_def)

lemma err_bind_Inl [simp]: "err_bind (Inl e) f = Inl e"
  by (simp add: err_bind_def)

subsection \<open>Every capture of a group lies in the language of its pattern\<close>

lemma star_rel:
  assumes step: "\<And>st st'. st' \<in> set (f st) \<Longrightarrow> S st st'"
    and refl: "\<And>st. R st st"
    and trans: "\<And>st st1 st'. S st st1 \<Longrightarrow> R st1 st' \<Longrightarrow> R st st'"
  shows "st' \<in> set (star f n st) \<Longrightarrow> R st st'"
proof (induction n arbitrary: st)
  case 0
  then show ?case by (simp add: refl)
next
  case (Suc n)
  from Suc.prems consider "st' = st"
    | st1 where "st1 \<in> set (f st)" "st' \<in> set (star f n st1)"
    by (auto split: if_splits)
  then show ?case
  proof cases
    case 1
    then show ?thesis by (simp add: refl)
  next
    case 2
    then show ?thesis using Suc.IH step trans by blast
  qed
qed

lemma consumes_refl: "consumes st [] st"
  by (simp add: consumes_def)

lemma consumes_trans: "consumes st u st1 \<Longrightarrow> consumes st1 v st' \<Longrightarrow> consumes st (u @ v) st'"
  by (simp add: consumes_def)

lemma star_sound:
  assumes step: "\<And>st st'. st' \<in> set (f st) \<Longrightarrow> \<exists>u. consumes st u st' \<and> u \<in> A"
  shows "st' \<in> set (star f n st) \<Longrightarrow> \<exists>u. consumes st u st' \<and> u \<in> star_lang A"
proof (rule star_rel [where f = f and S = "\<lambda>st st'. \<exists>u. consumes st u st' \<and> u \<in> A"])
  show "\<And>st st'. st' \<in> set (f st) \<Longrightarrow> \<exists>u. consumes st u st' \<and> u \<in> A" by (rule step)
  show "\<And>st. \<exists>u. consumes st u st \<and> u \<in> star_lang A"
    using consumes_refl star_nil by blast
  show "\<And>st st1 st'. \<exists>u. consumes st u st1 \<and> u \<in> A \<Longrightarrow>
          \<exists>u. consumes st1 u st' \<and> u \<in> star_lang A \<Longrightarrow> \<exists>u. consumes st u st' \<and> u \<in> star_lang A"
    using consumes_trans star_app by blast
qed

lemma ms_sound: "st' \<in> set (ms r st) \<Longrightarrow> \<exists>u. consumes st u st' \<and> u \<in> lang r"
proof (induction r arbitrary: st st')
  case Eps
  then show ?case by (simp add: consumes_refl)
next
  case (Sym i)
  then show ?case by (auto simp: consumes_def split: prod.splits list.splits if_splits)
next
  case (Bracket "is")
  then show ?case by (auto simp: consumes_def split: prod.splits list.splits if_splits)
next
  case Bol
  then show ?case by (auto simp: consumes_def split: prod.splits if_splits)
next
  case (Cat a b)
  from Cat.prems obtain st1 where "st1 \<in> set (ms a st)" "st' \<in> set (ms b st1)" by auto
  with Cat.IH obtain u v where "consumes st u st1" "u \<in> lang a" "consumes st1 v st'" "v \<in> lang b"
    by blast
  then show ?case using consumes_trans by fastforce
next
  case (Or a b)
  from Or.prems have "st' \<in> set (ms a st) \<or> st' \<in> set (ms b st)" by simp
  with Or.IH have "(\<exists>u. consumes st u st' \<and> u \<in> lang a) \<or> (\<exists>u. consumes st u st' \<and> u \<in> lang b)"
    by blast
  then show ?case by auto
next
  case (Opt a)
  from Opt.prems have "st' \<in> set (ms a st) \<or> st' = st" by auto
  with Opt.IH have "(\<exists>u. consumes st u st' \<and> u \<in> lang a) \<or> st' = st" by blast
  then show ?case
  proof
    assume "\<exists>u. consumes st u st' \<and> u \<in> lang a"
    then show ?thesis by auto
  next
    assume "st' = st"
    then have "consumes st [] st' \<and> [] \<in> lang (Opt a)" by (simp add: consumes_refl)
    then show ?thesis by blast
  qed
next
  case (Star a)
  then show ?case using star_sound [of "ms a" "lang a"] by simp
next
  case (Many a)
  from Many.prems obtain st1 where a: "st1 \<in> set (ms a st)"
    and b: "st' \<in> set (star (ms a) (length (fst (snd st1))) st1)" by auto
  from a Many.IH obtain u where u: "consumes st u st1" "u \<in> lang a" by blast
  from b Many.IH obtain v where v: "consumes st1 v st'" "v \<in> star_lang (lang a)"
    using star_sound [of "ms a" "lang a"] by blast
  from u v show ?case using consumes_trans by fastforce
next
  case (Group n a)
  from Group.prems obtain st1 where st1: "st1 \<in> set (ms a st)"
    and st': "fst st' = fst st1" "fst (snd st') = fst (snd st1)"
    by auto
  from st1 obtain u where "consumes st u st1" "u \<in> lang a" using Group.IH by blast
  with st' have "consumes st u st' \<and> u \<in> lang (Group n a)" by (simp add: consumes_def)
  then show ?case by blast
qed





lemma first_match_Some:
  "first_match r s js = Some m \<Longrightarrow> \<exists>i. i \<in> set js \<and> match_at r s i = Some m"
  by (induction js) (auto split: option.splits)

lemma match_at_Some:
  "match_at r s i = Some m \<Longrightarrow>
     \<exists>st. st \<in> set (ms r (i, drop i s, [])) \<and> m_start m = i \<and> m_end m = fst st \<and>
          m_groups m = snd (snd st) \<and> m_names m = group_names r"
  by (auto simp: match_at_def split: list.splits)

lemma re_search_from_Some:
  "re_search_from r s k = Some m \<Longrightarrow>
     \<exists>i st. k \<le> i \<and> i \<le> length s \<and> st \<in> set (ms r (i, drop i s, [])) \<and> m_start m = i \<and>
            m_end m = fst st \<and> m_groups m = snd (snd st) \<and> m_names m = group_names r"
  unfolding re_search_from_def
  by (drule first_match_Some) (auto dest!: match_at_Some)





subsection \<open>The fuel of the loops is always enough\<close>

text \<open>
  More fuel than the length of the text changes nothing: the recursion on the fuel in
  \<open>star\<close>, \<open>sub_from\<close> and \<open>replace_from\<close> never stops a loop early.
\<close>

lemma star_fuel: "length (fst (snd st)) \<le> n \<Longrightarrow> star f (Suc n) st = star f n st"
proof (induction n arbitrary: st)
  case 0
  then show ?case by simp
next
  case (Suc n)
  have "(if length (fst (snd st')) < length (fst (snd st)) then star f (Suc n) st' else []) =
        (if length (fst (snd st')) < length (fst (snd st)) then star f n st' else [])" for st'
    using Suc.IH [of st'] Suc.prems by simp
  then show ?case by simp
qed

lemma star_enough_fuel:
  "length (fst (snd st)) \<le> n \<Longrightarrow> star f (n + k) st = star f n st"
proof (induction k)
  case 0
  then show ?case by simp
next
  case (Suc k)
  have "star f (Suc (n + k)) st = star f (n + k) st"
    using Suc.prems by (intro star_fuel) simp
  with Suc show ?case by (simp only: add_Suc_right)
qed

lemma search_from_bounds:
  assumes "re_search_from r s i = Some m"
  shows "i \<le> m_start m \<and> m_start m \<le> m_end m \<and> m_end m \<le> length s"
proof -
  from assms obtain j st where j: "i \<le> j" "j \<le> length s"
    and st: "st \<in> set (ms r (j, drop j s, []))"
    and m: "m_start m = j" "m_end m = fst st"
    using re_search_from_Some by blast
  from st obtain u where "consumes (j, drop j s, []) u st" using ms_sound by blast
  then have "drop j s = u @ fst (snd st)" "fst st = j + length u" by (simp_all add: consumes_def)
  then have "length s - j = length u + length (fst (snd st))" "fst st = j + length u"
    by (metis length_append length_drop, simp)
  with j m show ?thesis by simp
qed

lemma sub_from_fuel:
  "Suc (length s) \<le> n + i \<Longrightarrow> sub_from (Suc n) r repl s i = sub_from n r repl s i"
proof (induction n arbitrary: i)
  case 0
  then have "re_search_from r s i = None" by (simp add: re_search_from_def)
  then show ?case by simp
next
  case (Suc n)
  show ?case
  proof (cases "re_search_from r s i")
    case None
    then show ?thesis by simp
  next
    case (Some m)
    from search_from_bounds [OF Some] have b: "i \<le> m_start m" "m_start m \<le> m_end m" by simp_all
    have 1: "sub_from (Suc n) r repl s (Suc (m_start m)) = sub_from n r repl s (Suc (m_start m))"
      using Suc.prems b by (intro Suc.IH) simp
    have 2: "sub_from (Suc n) r repl s (m_end m) = sub_from n r repl s (m_end m)"
      if "m_end m \<noteq> m_start m"
      using Suc.prems b that by (intro Suc.IH) simp
    show ?thesis
      using Some 1 2 sub_from.simps(2) [of "Suc n" r repl s i] sub_from.simps(2) [of n r repl s i]
      by simp
  qed
qed

lemma re_sub_enough_fuel: "sub_from (Suc (length s) + k) r repl s 0 = re_sub r repl s"
proof (induction k)
  case 0
  show ?case by (simp only: re_sub_def add_0_right)
next
  case (Suc k)
  have "sub_from (Suc (Suc (length s) + k)) r repl s 0 = sub_from (Suc (length s) + k) r repl s 0"
    by (intro sub_from_fuel) simp
  with Suc show ?case by (simp only: add_Suc_right)
qed

lemma replace_from_fuel:
  "length s \<le> n \<Longrightarrow> length s \<le> m \<Longrightarrow> replace_from n old new s = replace_from m old new s"
proof (induction s arbitrary: n m rule: length_induct)
  case (1 s)
  show ?case
  proof (cases s)
    case Nil
    have "replace_from k old new [] = []" for k by (cases k) simp_all
    then show ?thesis by (simp only: Nil)
  next
    case (Cons c cs)
    with "1.prems" obtain n' m' where nm: "n = Suc n'" "m = Suc m'"
      by (cases n; cases m) simp_all
    from "1.prems" Cons nm have len: "length cs \<le> n'" "length cs \<le> m'" by simp_all
    show ?thesis
    proof (cases "old \<noteq> [] \<and> take (length old) (c # cs) = old")
      case True
      let ?rest = "drop (length old) (c # cs)"
      from True have "0 < length old" by simp
      then have short: "length ?rest < length s" "length ?rest \<le> Suc n' - length old"
        "length ?rest \<le> Suc m' - length old"
        using len Cons by simp_all
      have eq: "replace_from (Suc n' - length old) old new ?rest =
                replace_from (Suc m' - length old) old new ?rest"
        using "1.IH" short by blast
      have "replace_from (Suc k) old new (c # cs) =
              new @ replace_from (Suc k - length old) old new ?rest" for k
        using if_P [OF True] replace_from.simps(3) [of k old new c cs] by (simp only:)
      with eq show ?thesis by (simp only: Cons nm)
    next
      case False
      have "length cs < length s" using Cons by simp
      then have eq: "replace_from n' old new cs = replace_from m' old new cs"
        using "1.IH" len by blast
      have "replace_from (Suc k) old new (c # cs) = c # replace_from k old new cs" for k
        using if_not_P [OF False] replace_from.simps(3) [of k old new c cs] by (simp only:)
      with eq show ?thesis by (simp only: Cons nm)
    qed
  qed
qed

lemma py_replace_enough_fuel: "replace_from (length s + k) old new s = py_replace s old new"
  unfolding py_replace_def by (rule replace_from_fuel) simp_all

subsection \<open>parseSEP never raises\<close>






















subsection \<open>The annotators and the builders\<close>















lemma series_no_category:
  assumes "parseSEP (shortdesc ev) = Inr (True, epnum)" and "find_child p ''category'' = None"
  shows "addSeriesInfo2Programme p ev =
           Inr (Element (el_tag p) (el_attrib p) (el_text p)
                  (el_children p @ [episode_num ''xmltv_ns'' epnum, category_element ''Series''] @
                   air_date_elements (shortdesc ev)))"
  using assms
  by (simp add: addSeriesInfo2Programme_def air_date_elements_def SubElement_def Let_def
      split: option.splits)

lemma series_other_category:
  assumes "parseSEP (shortdesc ev) = Inr (True, epnum)" and "find_child p ''category'' = Some c"
    and "el_text c \<noteq> Some ''Movie''" and "el_text c \<noteq> Some ''News''"
  shows "addSeriesInfo2Programme p ev =
           Inr (Element (el_tag p) (el_attrib p) (el_text p)
                  (el_children p @ [episode_num ''xmltv_ns'' epnum] @
                   air_date_elements (shortdesc ev)))"
  using assms
  by (simp add: addSeriesInfo2Programme_def air_date_elements_def SubElement_def Let_def
      split: option.splits)

lemma air_date_elements_tags:
  "list_all (\<lambda>e. el_tag e = ''episode-num'' \<and> el_attrib e = [(''system'', ''original-air-date'')])
     (air_date_elements sd)"
  by (simp add: air_date_elements_def episode_num_def split: option.splits)

lemma py_in_iff: "py_in sub s \<longleftrightarrow> (\<exists>u v. s = u @ sub @ v)"
proof (induction s)
  case Nil
  then show ?case by auto
next
  case (Cons c cs)
  have "take (length sub) (c # cs) = sub \<longleftrightarrow> (\<exists>v. c # cs = sub @ v)"
    by (metis append_eq_conv_conj append_take_drop_id)
  moreover have "(\<exists>u v. c # cs = u @ sub @ v) \<longleftrightarrow>
      (\<exists>v. c # cs = sub @ v) \<or> (\<exists>u v. cs = u @ sub @ v)"
  proof
    assume "\<exists>u v. c # cs = u @ sub @ v"
    then obtain u v where uv: "c # cs = u @ sub @ v" by blast
    show "(\<exists>v. c # cs = sub @ v) \<or> (\<exists>u v. cs = u @ sub @ v)"
    proof (cases u)
      case Nil
      with uv show ?thesis by auto
    next
      case (Cons a u')
      with uv have "cs = u' @ sub @ v" by simp
      then show ?thesis by blast
    qed
  next
    assume "(\<exists>v. c # cs = sub @ v) \<or> (\<exists>u v. cs = u @ sub @ v)"
    then show "\<exists>u v. c # cs = u @ sub @ v"
    proof
      assume "\<exists>v. c # cs = sub @ v"
      then obtain v where "c # cs = [] @ sub @ v" by auto
      then show ?thesis by blast
    next
      assume "\<exists>u v. cs = u @ sub @ v"
      then obtain u v where "c # cs = (c # u) @ sub @ v" by auto
      then show ?thesis by blast
    qed
  qed
  ultimately show ?case using Cons.IH by simp
qed

lemma replace_from_absent: "\<not> py_in old s \<Longrightarrow> replace_from n old new s = s"
proof (induction s arbitrary: n)
  case Nil
  then show ?case by (cases n) simp_all
next
  case (Cons c cs)
  from Cons.prems have "old \<noteq> []" by auto
  with Cons show ?case by (cases n) (simp_all split: if_splits)
qed

lemma py_replace_absent: "\<not> py_in old s \<Longrightarrow> py_replace s old new = s"
  by (simp add: py_replace_def replace_from_absent)

lemma py_replace_prefix:
  assumes "old \<noteq> []" and "\<not> py_in old rest"
  shows "py_replace (old @ rest) old new = new @ rest"
proof -
  obtain a old' where old: "old = a # old'" using assms(1) by (cases old) auto
  have "replace_from (Suc (length old' + length rest)) (a # old') new (a # old' @ rest) =
          new @ replace_from (length rest) (a # old') new rest"
    by simp
  with assms(2) show ?thesis by (simp add: py_replace_def old replace_from_absent)
qed

lemma add_title_cases:
  "add_title html p ev =
     (if py_in ''New: '' (unescape html (title ev))
      then SubElement (SubElement p (Element ''new'' [] None []))
             (title_element (py_replace (unescape html (title ev)) ''New: '' []))
      else SubElement p (title_element (unescape html (title ev))))"
  by (simp add: add_title_def title_element_def Let_def)


lemma valid_xml_char_ordinal_iff:
  "valid_xml_char_ordinal c \<longleftrightarrow> 32 \<le> (of_char c :: nat) \<or> (of_char c :: nat) \<in> {9, 10, 13}"
proof -
  have "((0x20 \<le> n \<and> n \<le> 0xD7FF) \<or> n \<in> set [0x9, 0xA, 0xD] \<or>
         (0xE000 \<le> n \<and> n \<le> 0xFFFD) \<or> (0x10000 \<le> n \<and> n \<le> 0x10FFFF)) =
        (32 \<le> n \<or> n \<in> {9, 10, 13})" if "n < 256" for n :: nat
    using that by auto
  from this [of "of_char c"] show ?thesis
    by (simp add: valid_xml_char_ordinal_def Let_def)
qed

lemma unescape_new_title: "unescape (Some (\<lambda>s. s)) ''New: A New: B'' = ''New: A New: B''"
  by (simp add: unescape_def html_unescape_def valid_xml_char_ordinal_iff)

lemma py_replace_new_title: "py_replace ''New: A New: B'' ''New: '' [] = ''A B''"
  by code_simp

lemma py_in_new_title: "py_in ''New: '' ''New: A New: B''"
  by code_simp




















section \<open>The claims\<close>





text \<open>
  C3. The test \<open>existing_category.text in ('Movie')\<close> is a substring test: the programme
  of the short description \<open>[M] Jaws\<close> has the first category \<open>M\<close>, which is not the
  text Movie, and it gets credits.
\<close>

theorem credits_for_substring_category:
  "addMovieCredits
     (addCategories2Programme empty_programme
        (sample_event ''Jaws'' ''[M] Jaws'' ''Plot\<newline>Steven Spielberg\<newline>Roy Scheider\<newline>''))
     (sample_event ''Jaws'' ''[M] Jaws'' ''Plot\<newline>Steven Spielberg\<newline>Roy Scheider\<newline>'') =
   Inr (Element ''programme'' [] None
          [category_element ''M'',
           Element ''credits'' [] None
             [Element ''director'' [] (Some ''Steven Spielberg'') [],
              Element ''actor'' [] (Some ''Roy Scheider'') []]])"
  by code_simp

text \<open>
  C4. The cast loses its last character whatever it is: where the long description does
  not end in a line break, the last actor's name is cut (Richard Dreyfuss becomes
  Richard Dreyfus).
\<close>

theorem last_actor_truncated:
  "addMovieCredits
     (addCategories2Programme empty_programme
        (sample_event ''Jaws'' ''[Movie] Jaws''
           ''Plot\<newline>Steven Spielberg\<newline>Roy Scheider\<newline>Richard Dreyfuss''))
     (sample_event ''Jaws'' ''[Movie] Jaws''
        ''Plot\<newline>Steven Spielberg\<newline>Roy Scheider\<newline>Richard Dreyfuss'') =
   Inr (Element ''programme'' [] None
          [category_element ''Movie'',
           Element ''credits'' [] None
             [Element ''director'' [] (Some ''Steven Spielberg'') [],
              Element ''actor'' [] (Some ''Roy Scheider'') [],
              Element ''actor'' [] (Some ''Richard Dreyfus'') []]])"
  by code_simp






text \<open>
  C7, as amended. When \<open>parseSEP\<close> matches the short description and the first category
  of the programme is neither Movie nor News, an episode-num of system \<open>xmltv_ns\<close> with
  the value is appended; a programme without any category also gets the category Series
  after it; a programme with a category gets no further category. Only the annotation of
  the air date, an episode-num too, can follow.
\<close>

theorem epnum_attached_unless_movie_news:
  assumes "parseSEP (shortdesc ev) = Inr (True, epnum)"
  shows
    "(find_child p ''category'' = None \<longrightarrow>
        addSeriesInfo2Programme p ev =
          Inr (Element (el_tag p) (el_attrib p) (el_text p)
                 (el_children p @ [episode_num ''xmltv_ns'' epnum, category_element ''Series''] @
                  air_date_elements (shortdesc ev)))) \<and>
     (\<forall>c. find_child p ''category'' = Some c \<and> el_text c \<noteq> Some ''Movie'' \<and>
           el_text c \<noteq> Some ''News'' \<longrightarrow>
        addSeriesInfo2Programme p ev =
          Inr (Element (el_tag p) (el_attrib p) (el_text p)
                 (el_children p @ [episode_num ''xmltv_ns'' epnum] @
                  air_date_elements (shortdesc ev)))) \<and>
     list_all (\<lambda>e. el_tag e = ''episode-num'' \<and> el_attrib e = [(''system'', ''original-air-date'')])
       (air_date_elements (shortdesc ev))"
  using series_no_category [OF assms] series_other_category [OF assms] air_date_elements_tags
  by blast

theorem epnum_attached_unless_movie_news_witness:
  "parseSEP (shortdesc (sample_event ''Lost'' ''Ep3/6'' '''')) = Inr (True, ''.2.5'') \<and>
   find_child empty_programme ''category'' = None \<and>
   addSeriesInfo2Programme empty_programme (sample_event ''Lost'' ''Ep3/6'' '''') =
     Inr (Element ''programme'' [] None
            [episode_num ''xmltv_ns'' ''.2.5'', category_element ''Series'']) \<and>
   parseSEP (shortdesc (sample_event ''Lost'' ''[Drama] Ep3/6'' '''')) = Inr (True, ''.2.5'') \<and>
   find_child (Element ''programme'' [] None [category_element ''Drama'']) ''category'' =
     Some (category_element ''Drama'') \<and>
   addSeriesInfo2Programme (Element ''programme'' [] None [category_element ''Drama''])
     (sample_event ''Lost'' ''[Drama] Ep3/6'' '''') =
     Inr (Element ''programme'' [] None
            [category_element ''Drama'', episode_num ''xmltv_ns'' ''.2.5''])"
proof -
  have a: "parseSEP (shortdesc (sample_event ''Lost'' ''Ep3/6'' '''')) = Inr (True, ''.2.5'')"
    by code_simp
  have b: "parseSEP (shortdesc (sample_event ''Lost'' ''[Drama] Ep3/6'' '''')) = Inr (True, ''.2.5'')"
    by code_simp
  have c: "air_date_elements (shortdesc (sample_event ''Lost'' ''Ep3/6'' '''')) = []"
    by code_simp
  have d: "air_date_elements (shortdesc (sample_event ''Lost'' ''[Drama] Ep3/6'' '''')) = []"
    by code_simp
  have e: "find_child empty_programme ''category'' = None"
    by code_simp
  have f: "find_child (Element ''programme'' [] None [category_element ''Drama'']) ''category'' =
             Some (category_element ''Drama'')"
    by code_simp
  have g: "el_text (category_element ''Drama'') \<noteq> Some ''Movie'' \<and>
           el_text (category_element ''Drama'') \<noteq> Some ''News''"
    by code_simp
  show ?thesis
    using epnum_attached_unless_movie_news [OF a, of empty_programme]
      epnum_attached_unless_movie_news
        [OF b, of "Element ''programme'' [] None [category_element ''Drama'']"]
      a b c d e f g
    by (simp add: empty_programme_def)
qed

text \<open>
  C7 as stated fails: \<open>parseSEP\<close> matches the short description \<open>[Movie] Ep3/6\<close>, and
  the programme, whose first category is Movie, gets no episode-num.
\<close>

theorem movie_programme_gets_no_epnum:
  "parseSEP (shortdesc (sample_event ''Heat'' ''[Movie] Ep3/6'' '''')) = Inr (True, ''.2.5'') \<and>
   addSeriesInfo2Programme
     (addCategories2Programme empty_programme (sample_event ''Heat'' ''[Movie] Ep3/6'' ''''))
     (sample_event ''Heat'' ''[Movie] Ep3/6'' '''') =
   Inr (Element ''programme'' [] None [category_element ''Movie''])"
  by code_simp

text \<open>
  C8, as amended. When \<open>New: \<close> occurs anywhere in the sanitized title, the programme
  gets an empty \<open>new\<close> element and then the title with every occurrence of \<open>New: \<close>
  removed; otherwise it gets the sanitized title alone. For a title that starts with
  \<open>New: \<close> and has no other occurrence, that is the title without this prefix.
\<close>

theorem new_marker_and_title:
  "add_title html p ev =
     (if py_in ''New: '' (unescape html (title ev))
      then SubElement (SubElement p (Element ''new'' [] None []))
             (title_element (py_replace (unescape html (title ev)) ''New: '' []))
      else SubElement p (title_element (unescape html (title ev)))) \<and>
   (py_in ''New: '' t \<longleftrightarrow> (\<exists>u v. t = u @ ''New: '' @ v)) \<and>
   (\<not> py_in ''New: '' t \<longrightarrow> py_replace (''New: '' @ t) ''New: '' [] = t)"
proof (intro conjI impI)
  show "py_replace (''New: '' @ t) ''New: '' [] = t" if "\<not> py_in ''New: '' t"
    using py_replace_prefix [of "''New: ''" t "[]"] that by simp
qed (rule add_title_cases py_in_iff)+

theorem new_marker_and_title_witness:
  "\<not> py_in ''New: '' ''Heat'' \<and>
   py_replace ''New: Heat'' ''New: '' [] = ''Heat'' \<and>
   add_title None empty_programme (sample_event ''New: Heat'' ''Pilot'' '''') =
     Element ''programme'' [] None [Element ''new'' [] None [], title_element ''Heat'']"
proof -
  have a: "\<not> py_in ''New: '' ''Heat''" by code_simp
  have b: "py_in ''New: '' ''New: Heat''" by code_simp
  show ?thesis
    using new_marker_and_title [of None empty_programme
              "sample_event ''New: Heat'' ''Pilot'' ''''" "''Heat''"] a b
    by (simp add: sample_event_def empty_programme_def SubElement_def unescape_def)
qed

text \<open>
  C8 as stated fails: the title \<open>New: A New: B\<close> starts with the prefix, and the title of
  the programme is \<open>A B\<close>, not the title without its prefix, \<open>A New: B\<close>.
\<close>

theorem every_new_occurrence_removed:
  "take 5 (unescape (Some (\<lambda>s. s)) (title (sample_event ''New: A New: B'' ''Pilot'' ''''))) = ''New: '' \<and>
   drop 5 (unescape (Some (\<lambda>s. s)) (title (sample_event ''New: A New: B'' ''Pilot'' ''''))) = ''A New: B'' \<and>
   add_title (Some (\<lambda>s. s)) empty_programme (sample_event ''New: A New: B'' ''Pilot'' '''') =
     Element ''programme'' [] None [Element ''new'' [] None [], title_element ''A B'']"
  by (simp add: add_title_cases sample_event_def unescape_new_title py_replace_new_title
      py_in_new_title empty_programme_def SubElement_def)

text \<open>
  C9. For the offset of minus five and a half hours, \<open>round\<close> takes the hours to -6 and
  the rest to +30 minutes, and the text is \<open>-0570\<close>, not \<open>-0530\<close>; plus five and a half
  hours gives \<open>+0570\<close>. Whole hours are rendered as the claim says.
\<close>

theorem half_hour_offset_misrendered:
  "getOffset (- 19800) = ''-0570'' \<and> getOffset 19800 = ''+0570'' \<and> getOffset 3600 = ''+0100''"
  by code_simp




end
